theory Spec2Isabelle
  imports Complex_Main
begin

section \<open>TrendLens.ML: the forecast service of \<^verbatim>\<open>ml_service.py\<close>\<close>

text \<open>
  The service is a Flask wrapper around one process-wide \<^verbatim>\<open>SalesForecastModel\<close>: a
  scikit-learn \<^verbatim>\<open>StandardScaler\<close> and \<^verbatim>\<open>LinearRegression\<close> over three calendar features,
  persisted with joblib in two files of the working directory.

  The embedding keeps the structure of the source. Mutation of the model object and of the
  two files is explicit state passing; every exception is a value of \<open>error + 'a\<close>; a pandas
  data frame is an ordered store of named columns, so that the in-place column assignments of
  \<^verbatim>\<open>prepare_features\<close> are visible. The floats of the estimators are modelled as \<open>real\<close>:
  rounding and overflow of their arithmetic are outside the model. A missing value (pandas'
  NaN in a float column, NaT in a datetime column) is explicit. \<^verbatim>\<open>joblib.dump\<close> is taken to
  succeed: a disk that refuses a write is outside the model.

  Two library routines are parameters of the model, because their behaviour is not part of
  this program:
  \<^item> \<open>parse\<close>, the conversion of one date string by \<^verbatim>\<open>pandas.to_datetime\<close>: a
    timestamp, the missing value NaT (as for the empty string), or \<open>None\<close> when pandas
    raises;
  \<^item> \<open>ols\<close>, the least-squares solver behind \<^verbatim>\<open>LinearRegression.fit\<close>.
\<close>

subsection \<open>Exceptions\<close>

datatype error =
    ParseError string            \<comment> \<open>\<^verbatim>\<open>to_datetime\<close> cannot parse the string\<close>
  | KeyError string              \<comment> \<open>missing column of a data frame\<close>
  | AttributeError               \<comment> \<open>\<^verbatim>\<open>.dt\<close> on a column that holds no timestamps\<close>
  | TypeError                    \<comment> \<open>operand of the wrong type, e.g. \<^verbatim>\<open>None * 0\<close>\<close>
  | OverflowError                \<comment> \<open>\<^verbatim>\<open>int\<close> too large to convert to \<^verbatim>\<open>float\<close>\<close>
  | ValueError                   \<comment> \<open>scikit-learn input validation\<close>
  | NotFittedError               \<comment> \<open>scikit-learn estimator used before \<^verbatim>\<open>fit\<close>\<close>
  | FileNotFoundError string     \<comment> \<open>\<^verbatim>\<open>joblib.load\<close> of a file that does not exist\<close>
  | UnpicklingError string       \<comment> \<open>\<^verbatim>\<open>joblib.load\<close> of a file that is not a pickle\<close>

text \<open>
  The specification's error taxonomy calls "prediction requested with no trained or
  persisted model available" a \<^emph>\<open>ModelNotReadyError\<close>. In the program that condition is
  scikit-learn's \<^verbatim>\<open>NotFittedError\<close>, raised by the unfitted scaler or regressor.
\<close>

abbreviation ModelNotReadyError :: error where
  "ModelNotReadyError \<equiv> NotFittedError"

subsection \<open>Calendar: the \<^verbatim>\<open>.dt\<close> accessors of a timestamp\<close>

datatype timestamp = Timestamp (year: int) (month: nat) (day: nat)

definition is_leap_year :: "int \<Rightarrow> bool" where
  "is_leap_year y \<longleftrightarrow> y mod 4 = 0 \<and> (y mod 100 \<noteq> 0 \<or> y mod 400 = 0)"

definition days_in_month :: "int \<Rightarrow> nat \<Rightarrow> nat" where
  "days_in_month y m =
     (if m = 2 then (if is_leap_year y then 29 else 28)
      else if m = 4 \<or> m = 6 \<or> m = 9 \<or> m = 11 then 30
      else 31)"

definition dayofyear :: "timestamp \<Rightarrow> int" where
  \<comment> \<open>ordinal day of the year, 1 to 366\<close>
  "dayofyear t = int (sum_list (map (days_in_month (year t)) [1..<month t]) + day t)"

definition days_from_civil :: "timestamp \<Rightarrow> int" where
  \<comment> \<open>days since 1970-01-01 in the proleptic Gregorian calendar\<close>
  "days_from_civil t =
     (let y = (if month t \<le> 2 then year t - 1 else year t);
          era = y div 400;
          yoe = y - era * 400;
          mp = (if month t > 2 then int (month t) - 3 else int (month t) + 9);
          doy = (153 * mp + 2) div 5 + int (day t) - 1;
          doe = yoe * 365 + yoe div 4 - yoe div 100 + doy
      in era * 146097 + doe - 719468)"

definition dayofweek :: "timestamp \<Rightarrow> int" where
  \<comment> \<open>pandas numbering: Monday is 0, Sunday is 6; 1970-01-01 was a Thursday\<close>
  "dayofweek t = (days_from_civil t + 3) mod 7"

subsection \<open>Data frames\<close>

text \<open>An element of a datetime column is a timestamp or the missing value NaT.\<close>

datatype datetime = NaT | Stamp timestamp

datatype column =
    StrCol "string list"
  | DateCol "datetime list"
  | FloatCol "real option list"      \<comment> \<open>\<open>None\<close> is NaN, a missing value\<close>
  | IntCol "int list"

type_synonym data_frame = "(string \<times> column) list"

definition getitem :: "data_frame \<Rightarrow> string \<Rightarrow> error + column" where
  \<comment> \<open>\<^verbatim>\<open>df[k]\<close>\<close>
  "getitem df k = (case map_of df k of None \<Rightarrow> Inl (KeyError k) | Some c \<Rightarrow> Inr c)"

fun setitem :: "data_frame \<Rightarrow> string \<Rightarrow> column \<Rightarrow> data_frame" where
  \<comment> \<open>\<^verbatim>\<open>df[k] = c\<close>: replaces the column in place, or appends a new last column\<close>
  "setitem [] k c = [(k, c)]"
| "setitem ((k', c') # df) k c =
     (if k' = k then (k, c) # df else (k', c') # setitem df k c)"

fun getitems :: "data_frame \<Rightarrow> string list \<Rightarrow> error + data_frame" where
  \<comment> \<open>\<^verbatim>\<open>df[[k1, ..., kn]]\<close>: a new frame of the named columns, in that order\<close>
  "getitems df [] = Inr []"
| "getitems df (k # ks) =
     (case getitem df k of
        Inl e \<Rightarrow> Inl e
      | Inr c \<Rightarrow> (case getitems df ks of Inl e \<Rightarrow> Inl e | Inr cs \<Rightarrow> Inr ((k, c) # cs)))"

definition dt :: "data_frame \<Rightarrow> string \<Rightarrow> error + datetime list" where
  \<comment> \<open>\<^verbatim>\<open>df[k].dt\<close>: the elements of a datetime column\<close>
  "dt df k =
     (case getitem df k of
        Inl e \<Rightarrow> Inl e
      | Inr (DateCol ds) \<Rightarrow> Inr ds
      | Inr _ \<Rightarrow> Inl AttributeError)"

fun stamps :: "datetime list \<Rightarrow> timestamp list" where
  \<comment> \<open>the timestamps of a datetime sequence, NaT left out\<close>
  "stamps [] = []"
| "stamps (NaT # ds) = stamps ds"
| "stamps (Stamp t # ds) = t # stamps ds"

definition dt_values :: "(timestamp \<Rightarrow> int) \<Rightarrow> datetime list \<Rightarrow> column" where
  \<comment> \<open>a calendar field of a datetime column, e.g. \<^verbatim>\<open>df[k].dt.month\<close>: an integer column,
      or, when the column holds a NaT, a float column with NaN at the places of NaT\<close>
  "dt_values f ds =
     (if NaT \<in> set ds
      then FloatCol (map (\<lambda>d. case d of NaT \<Rightarrow> None | Stamp t \<Rightarrow> Some (real_of_int (f t))) ds)
      else IntCol (map f (stamps ds)))"

fun parse_all :: "(string \<Rightarrow> datetime option) \<Rightarrow> string list \<Rightarrow> error + datetime list" where
  "parse_all parse [] = Inr []"
| "parse_all parse (s # ss) =
     (case parse s of
        None \<Rightarrow> Inl (ParseError s)
      | Some t \<Rightarrow> (case parse_all parse ss of Inl e \<Rightarrow> Inl e | Inr ts \<Rightarrow> Inr (t # ts)))"

fun to_datetime :: "(string \<Rightarrow> datetime option) \<Rightarrow> column \<Rightarrow> error + column" where
  \<comment> \<open>\<^verbatim>\<open>pd.to_datetime\<close> of a sequence: every element is converted (to a timestamp or to
      NaT), or the call raises. Only strings reach it in this program; a numeric sequence,
      which pandas would read as offsets from the epoch, is not modelled and is rejected.\<close>
  "to_datetime parse (StrCol ss) =
     (case parse_all parse ss of Inl e \<Rightarrow> Inl e | Inr ts \<Rightarrow> Inr (DateCol ts))"
| "to_datetime parse (DateCol ts) = Inr (DateCol ts)"
| "to_datetime parse (FloatCol xs) = Inl TypeError"
| "to_datetime parse (IntCol ns) = Inl TypeError"

subsection \<open>\<^verbatim>\<open>SalesForecastModel.prepare_features\<close>\<close>

text \<open>
  \<^verbatim>\<open>
  def prepare_features(self, data):
      data['day_of_year'] = data['Date'].dt.dayofyear
      data['month'] = data['Date'].dt.month
      data['day_of_week'] = data['Date'].dt.dayofweek
      return data[['day_of_year', 'month', 'day_of_week']]
  \<close>
  The argument is a mutable frame: the model returns the frame as the call leaves it,
  together with the value returned (or the exception raised).
\<close>

definition prepare_features :: "data_frame \<Rightarrow> data_frame \<times> (error + data_frame)" where
  "prepare_features data =
     (case dt data ''Date'' of
        Inl e \<Rightarrow> (data, Inl e)
      | Inr ds1 \<Rightarrow>
          let data1 = setitem data ''day_of_year'' (dt_values dayofyear ds1) in
          (case dt data1 ''Date'' of
             Inl e \<Rightarrow> (data1, Inl e)
           | Inr ds2 \<Rightarrow>
               let data2 = setitem data1 ''month'' (dt_values (\<lambda>t. int (month t)) ds2) in
               (case dt data2 ''Date'' of
                  Inl e \<Rightarrow> (data2, Inl e)
                | Inr ds3 \<Rightarrow>
                    let data3 = setitem data2 ''day_of_week'' (dt_values dayofweek ds3) in
                    (data3, getitems data3 [''day_of_year'', ''month'', ''day_of_week'']))))"

subsection \<open>scikit-learn: input validation, \<^verbatim>\<open>StandardScaler\<close>, \<^verbatim>\<open>LinearRegression\<close>\<close>

text \<open>
  The feature schema is fixed: three columns, in the order day of year, month, day of
  week. A feature row, the scaler's per-feature mean and scale, and the regressor's
  coefficients are triples of reals.
\<close>

type_synonym features = "real \<times> real \<times> real"

record standard_scaler =
  scaler_mean :: features
  scaler_scale :: features

record linear_regression =
  coef :: features
  intercept :: real

text \<open>
  The regressor object is \<open>None\<close> until it has been fitted. A scaler that was fitted on
  nothing but NaN is a state of its own, see \<open>scaler_object\<close> below.
  A row of a feature matrix is \<open>None\<close> when it holds NaN. In this program the three
  features of a date are missing together (the date is NaT), so a row with any NaN is
  such a row.
\<close>

definition as_floats :: "column \<Rightarrow> real option list option" where
  \<comment> \<open>conversion of a column to a float array; \<open>None\<close> when the column is not numeric\<close>
  "as_floats c =
     (case c of
        IntCol ns \<Rightarrow> Some (map (\<lambda>n. Some (real_of_int n)) ns)
      | FloatCol xs \<Rightarrow> Some xs
      | _ \<Rightarrow> None)"

fun nan_row :: "real option \<times> real option \<times> real option \<Rightarrow> features option" where
  "nan_row (Some x1, Some x2, Some x3) = Some (x1, x2, x3)"
| "nan_row _ = None"

fun check_array :: "data_frame \<Rightarrow> error + features option list" where
  \<comment> \<open>validation of a feature matrix by the scaler, which lets NaN pass: three numeric
      columns and at least one row\<close>
  "check_array [(k1, c1), (k2, c2), (k3, c3)] =
     (case (as_floats c1, as_floats c2, as_floats c3) of
        (Some a, Some b, Some c) \<Rightarrow>
          (if a = [] then Inl ValueError else Inr (map nan_row (zip a (zip b c))))
      | _ \<Rightarrow> Inl ValueError)"
| "check_array _ = Inl ValueError"

fun present :: "'a option list \<Rightarrow> 'a list" where
  \<comment> \<open>the rows that hold no NaN\<close>
  "present [] = []"
| "present (None # xs) = present xs"
| "present (Some x # xs) = x # present xs"

definition column_mean :: "real list \<Rightarrow> real" where
  "column_mean xs = sum_list xs / real (length xs)"

definition column_scale :: "real list \<Rightarrow> real" where
  \<comment> \<open>population standard deviation; a constant feature is scaled by 1\<close>
  "column_scale xs =
     (let s = sqrt (column_mean (map (\<lambda>x. (x - column_mean xs)\<^sup>2) xs))
      in if s = 0 then 1 else s)"

definition scaler_fit :: "features list \<Rightarrow> standard_scaler" where
  "scaler_fit rows =
     (let c1 = map fst rows; c2 = map (\<lambda>r. fst (snd r)) rows; c3 = map (\<lambda>r. snd (snd r)) rows
      in \<lparr>scaler_mean = (column_mean c1, column_mean c2, column_mean c3),
          scaler_scale = (column_scale c1, column_scale c2, column_scale c3)\<rparr>)"

text \<open>
  The scaler object: not fitted yet, fitted with its statistics, or fitted on a matrix
  without a single valid row, which leaves NaN as mean and scale of every feature.
\<close>

datatype scaler_object = Unfitted | Fitted standard_scaler | FittedNaN

definition scaler_fit_nan :: "features option list \<Rightarrow> scaler_object" where
  \<comment> \<open>the statistics are taken over the rows without NaN\<close>
  "scaler_fit_nan rows =
     (if present rows = [] then FittedNaN else Fitted (scaler_fit (present rows)))"

definition scale_row :: "standard_scaler \<Rightarrow> features \<Rightarrow> features" where
  "scale_row p x =
     (case (x, scaler_mean p, scaler_scale p) of
        ((x1, x2, x3), (m1, m2, m3), (s1, s2, s3)) \<Rightarrow>
          ((x1 - m1) / s1, (x2 - m2) / s2, (x3 - m3) / s3))"

definition transform :: "scaler_object \<Rightarrow> data_frame \<Rightarrow> error + features option list" where
  \<comment> \<open>\<^verbatim>\<open>scaler.transform(X)\<close>: checks that the scaler is fitted, then validates \<open>X\<close>; a
      NaN row stays NaN, and NaN statistics make every row NaN\<close>
  "transform sc X =
     (case sc of
        Unfitted \<Rightarrow> Inl NotFittedError
      | Fitted p \<Rightarrow>
          (case check_array X of
             Inl e \<Rightarrow> Inl e
           | Inr rows \<Rightarrow> Inr (map (map_option (scale_row p)) rows))
      | FittedNaN \<Rightarrow>
          (case check_array X of
             Inl e \<Rightarrow> Inl e
           | Inr rows \<Rightarrow> Inr (map (\<lambda>r. None) rows)))"

definition fit_transform ::
  "data_frame \<Rightarrow> scaler_object \<times> (error + features option list)" where
  \<comment> \<open>\<^verbatim>\<open>scaler.fit_transform(X)\<close>, that is \<^verbatim>\<open>fit(X).transform(X)\<close>: \<^verbatim>\<open>fit\<close> resets the
      scaler before it validates \<open>X\<close>; the first component is the scaler object after
      the call\<close>
  "fit_transform X =
     (case check_array X of
        Inl e \<Rightarrow> (Unfitted, Inl e)
      | Inr rows \<Rightarrow> (let sc = scaler_fit_nan rows in (sc, transform sc X)))"

definition lr_fit ::
  "(features list \<Rightarrow> real list \<Rightarrow> linear_regression) \<Rightarrow> linear_regression option \<Rightarrow>
   features option list \<Rightarrow> column \<Rightarrow> linear_regression option \<times> (error + unit)" where
  \<comment> \<open>\<^verbatim>\<open>model.fit(X, y)\<close>: \<open>X\<close> and \<open>y\<close> must be numeric, free of NaN and of one
      length; a rejected call leaves the regressor as it was\<close>
  "lr_fit ols m X y =
     (if None \<in> set X then (m, Inl ValueError)
      else
        (case as_floats y of
           None \<Rightarrow> (m, Inl ValueError)
         | Some ys \<Rightarrow>
             (if None \<in> set ys \<or> length ys \<noteq> length X then (m, Inl ValueError)
              else (Some (ols (map the X) (map the ys)), Inr ()))))"

definition lr_predict_row :: "linear_regression \<Rightarrow> features \<Rightarrow> real" where
  "lr_predict_row p x =
     (case (coef p, x) of
        ((w1, w2, w3), (x1, x2, x3)) \<Rightarrow> w1 * x1 + w2 * x2 + w3 * x3 + intercept p)"

definition lr_predict ::
  "linear_regression option \<Rightarrow> features option list \<Rightarrow> error + real list" where
  \<comment> \<open>\<^verbatim>\<open>model.predict(X)\<close>: checks that the regressor is fitted, then rejects NaN\<close>
  "lr_predict m X =
     (case m of
        None \<Rightarrow> Inl NotFittedError
      | Some p \<Rightarrow>
          (if None \<in> set X then Inl ValueError
           else Inr (map (\<lambda>x. lr_predict_row p (the x)) X)))"

subsection \<open>The model object and the two artifact files\<close>

record sales_forecast_model =
  model :: "linear_regression option"
  scaler :: scaler_object
  is_trained :: bool

definition init :: sales_forecast_model where
  \<comment> \<open>\<^verbatim>\<open>SalesForecastModel.__init__\<close>\<close>
  "init = \<lparr>model = None, scaler = Unfitted, is_trained = False\<rparr>"

datatype 'a disk_file = Missing | Corrupt | Pickled 'a

record disk =
  sales_model_pkl :: "linear_regression option disk_file"
  scaler_pkl :: "scaler_object disk_file"

definition path_exists :: "'a disk_file \<Rightarrow> bool" where
  "path_exists f \<longleftrightarrow> f \<noteq> Missing"

definition joblib_load :: "string \<Rightarrow> 'a disk_file \<Rightarrow> error + 'a" where
  "joblib_load name f =
     (case f of
        Missing \<Rightarrow> Inl (FileNotFoundError name)
      | Corrupt \<Rightarrow> Inl (UnpicklingError name)
      | Pickled x \<Rightarrow> Inr x)"

subsection \<open>\<^verbatim>\<open>SalesForecastModel.load_model\<close>\<close>

text \<open>
  \<^verbatim>\<open>
  def load_model(self):
      if os.path.exists('sales_model.pkl'):
          self.model = joblib.load('sales_model.pkl')
          self.scaler = joblib.load('scaler.pkl')
          self.is_trained = True
  \<close>
\<close>

definition load_model ::
  "sales_forecast_model \<Rightarrow> disk \<Rightarrow> sales_forecast_model \<times> (error + unit)" where
  "load_model self fs =
     (if path_exists (sales_model_pkl fs) then
        (case joblib_load ''sales_model.pkl'' (sales_model_pkl fs) of
           Inl e \<Rightarrow> (self, Inl e)
         | Inr m \<Rightarrow>
             let self = self\<lparr>model := m\<rparr> in
             (case joblib_load ''scaler.pkl'' (scaler_pkl fs) of
                Inl e \<Rightarrow> (self, Inl e)
              | Inr s \<Rightarrow> (self\<lparr>scaler := s, is_trained := True\<rparr>, Inr ())))
      else (self, Inr ()))"

subsection \<open>\<^verbatim>\<open>SalesForecastModel.train\<close>\<close>

text \<open>
  A sales record of the request body: \<^verbatim>\<open>{"Date": str, "Amount": number}\<close>. The amount
  is the float that pandas stores for the number, or JSON \<^verbatim>\<open>null\<close> (\<open>None\<close>), which
  pandas stores as a missing value.
\<close>

record sales_record =
  Date :: string
  Amount :: "real option"

definition DataFrame :: "sales_record list \<Rightarrow> data_frame" where
  \<comment> \<open>\<^verbatim>\<open>pd.DataFrame(sales_data)\<close>: one column per key; no record, no column\<close>
  "DataFrame sales_data =
     (if sales_data = [] then []
      else [(''Date'', StrCol (map Date sales_data)),
            (''Amount'', FloatCol (map Amount sales_data))])"

text \<open>
  \<^verbatim>\<open>
  def train(self, sales_data):
      df = pd.DataFrame(sales_data)
      df['Date'] = pd.to_datetime(df['Date'])
      X = self.prepare_features(df)
      y = df['Amount']
      X_scaled = self.scaler.fit_transform(X)
      self.model.fit(X_scaled, y)
      self.is_trained = True
      joblib.dump(self.model, 'sales_model.pkl')
      joblib.dump(self.scaler, 'scaler.pkl')
  \<close>
\<close>

definition train ::
  "(string \<Rightarrow> datetime option) \<Rightarrow> (features list \<Rightarrow> real list \<Rightarrow> linear_regression) \<Rightarrow>
   sales_forecast_model \<Rightarrow> disk \<Rightarrow> sales_record list \<Rightarrow>
   sales_forecast_model \<times> disk \<times> (error + unit)" where
  "train parse ols self fs sales_data =
     (let df = DataFrame sales_data in
      case getitem df ''Date'' of
        Inl e \<Rightarrow> (self, fs, Inl e)
      | Inr c \<Rightarrow>
     (case to_datetime parse c of
        Inl e \<Rightarrow> (self, fs, Inl e)
      | Inr dc \<Rightarrow>
     (let df = setitem df ''Date'' dc in
      case prepare_features df of
        (df, Inl e) \<Rightarrow> (self, fs, Inl e)
      | (df, Inr X) \<Rightarrow>
     (case getitem df ''Amount'' of
        Inl e \<Rightarrow> (self, fs, Inl e)
      | Inr y \<Rightarrow>
     (case fit_transform X of
        (sc, Inl e) \<Rightarrow> (self\<lparr>scaler := sc\<rparr>, fs, Inl e)
      | (sc, Inr X_scaled) \<Rightarrow>
     (let self = self\<lparr>scaler := sc\<rparr> in
      case lr_fit ols (model self) X_scaled y of
        (m, Inl e) \<Rightarrow> (self\<lparr>model := m\<rparr>, fs, Inl e)
      | (m, Inr _) \<Rightarrow>
     (let self = self\<lparr>model := m, is_trained := True\<rparr>;
          fs = fs\<lparr>sales_model_pkl := Pickled (model self)\<rparr>;
          fs = fs\<lparr>scaler_pkl := Pickled (scaler self)\<rparr>
      in (self, fs, Inr ()))))))))"

subsection \<open>\<^verbatim>\<open>SalesForecastModel.predict\<close>\<close>

text \<open>
  \<^verbatim>\<open>
  def predict(self, future_dates):
      if not self.is_trained:
          self.load_model()
      df = pd.DataFrame({'Date': pd.to_datetime(future_dates)})
      X = self.prepare_features(df)
      X_scaled = self.scaler.transform(X)
      predictions = self.model.predict(X_scaled)
      return predictions.tolist()
  \<close>
\<close>

definition predict ::
  "(string \<Rightarrow> datetime option) \<Rightarrow> sales_forecast_model \<Rightarrow> disk \<Rightarrow> string list \<Rightarrow>
   sales_forecast_model \<times> (error + real list)" where
  "predict parse self fs future_dates =
     (case (if \<not> is_trained self then load_model self fs else (self, Inr ())) of
        (self, Inl e) \<Rightarrow> (self, Inl e)
      | (self, Inr _) \<Rightarrow>
     (case to_datetime parse (StrCol future_dates) of
        Inl e \<Rightarrow> (self, Inl e)
      | Inr dc \<Rightarrow>
     (let df = [(''Date'', dc)] in
      case prepare_features df of
        (df, Inl e) \<Rightarrow> (self, Inl e)
      | (df, Inr X) \<Rightarrow>
     (case transform (scaler self) X of
        Inl e \<Rightarrow> (self, Inl e)
      | Inr X_scaled \<Rightarrow>
     (case lr_predict (model self) X_scaled of
        Inl e \<Rightarrow> (self, Inl e)
      | Inr predictions \<Rightarrow> (self, Inr predictions))))))"

subsection \<open>The HTTP handlers\<close>

text \<open>
  A handler receives the field of the JSON body it reads (\<open>None\<close> when the key is
  absent, so that \<^verbatim>\<open>.get(key, default)\<close> supplies the default) and returns the response:
  a body and a status code. The blanket \<^verbatim>\<open>except Exception\<close> of each handler turns every
  exception into an error body with status 500.
\<close>

record prediction =
  date :: string
  predicted_amount :: real
  confidence_interval :: real

text \<open>
  A Python float of the customer-value computation: a finite value, an infinity or NaN.
  \<open>to_float\<close> is the float that a real result becomes: itself (rounding aside) within
  the range of a double, an infinity beyond it. The bound is the least magnitude that
  rounds to infinity, \<open>2\<^sup>1\<^sup>0\<^sup>2\<^sup>4 - 2\<^sup>9\<^sup>7\<^sup>0\<close>.
\<close>

datatype pyfloat = Fin real | PosInf | NegInf | NaN

definition float_overflow :: real where
  "float_overflow = 2 ^ 1024 - 2 ^ 970"

definition in_float_range :: "real \<Rightarrow> bool" where
  "in_float_range x \<longleftrightarrow> \<bar>x\<bar> < float_overflow"

definition to_float :: "real \<Rightarrow> pyfloat" where
  "to_float x = (if in_float_range x then Fin x else if 0 < x then PosInf else NegInf)"

fun fmul :: "pyfloat \<Rightarrow> pyfloat \<Rightarrow> pyfloat" where
  \<comment> \<open>float multiplication: it overflows to an infinity and never raises\<close>
  "fmul (Fin a) (Fin b) = to_float (a * b)"
| "fmul NaN y = NaN"
| "fmul x NaN = NaN"
| "fmul (Fin a) PosInf = (if a = 0 then NaN else if 0 < a then PosInf else NegInf)"
| "fmul (Fin a) NegInf = (if a = 0 then NaN else if 0 < a then NegInf else PosInf)"
| "fmul PosInf (Fin b) = (if b = 0 then NaN else if 0 < b then PosInf else NegInf)"
| "fmul NegInf (Fin b) = (if b = 0 then NaN else if 0 < b then NegInf else PosInf)"
| "fmul PosInf PosInf = PosInf"
| "fmul PosInf NegInf = NegInf"
| "fmul NegInf PosInf = NegInf"
| "fmul NegInf NegInf = PosInf"

definition int_to_float :: "int \<Rightarrow> error + pyfloat" where
  \<comment> \<open>the conversion of a Python \<^verbatim>\<open>int\<close>, which is unbounded, to \<^verbatim>\<open>float\<close>\<close>
  "int_to_float n =
     (if in_float_range (real_of_int n) then Inr (Fin (real_of_int n)) else Inl OverflowError)"

record customer_value =
  predicted_lifetime_value :: pyfloat
  confidence :: real

datatype body =
    StatusBody string
  | MessageBody string
  | ErrorBody error
  | PredictionsBody "prediction list"
  | CustomerValueBody customer_value

type_synonym response = "body \<times> nat"

definition health_check :: response where
  "health_check = (StatusBody ''healthy'', 200)"

definition train_model ::
  "(string \<Rightarrow> datetime option) \<Rightarrow> (features list \<Rightarrow> real list \<Rightarrow> linear_regression) \<Rightarrow>
   sales_forecast_model \<Rightarrow> disk \<Rightarrow> sales_record list option \<Rightarrow>
   sales_forecast_model \<times> disk \<times> response" where
  "train_model parse ols forecast_model fs body_sales_data =
     (let sales_data = (case body_sales_data of None \<Rightarrow> [] | Some xs \<Rightarrow> xs) in
      case train parse ols forecast_model fs sales_data of
        (forecast_model, fs, Inl e) \<Rightarrow> (forecast_model, fs, (ErrorBody e, 500))
      | (forecast_model, fs, Inr _) \<Rightarrow>
          (forecast_model, fs, (MessageBody ''Model trained successfully'', 200)))"

definition predict_sales ::
  "(string \<Rightarrow> datetime option) \<Rightarrow> sales_forecast_model \<Rightarrow> disk \<Rightarrow> string list option \<Rightarrow>
   sales_forecast_model \<times> response" where
  "predict_sales parse forecast_model fs body_dates =
     (let future_dates = (case body_dates of None \<Rightarrow> [] | Some ds \<Rightarrow> ds) in
      case predict parse forecast_model fs future_dates of
        (forecast_model, Inl e) \<Rightarrow> (forecast_model, (ErrorBody e, 500))
      | (forecast_model, Inr predictions) \<Rightarrow>
          (forecast_model,
           (PredictionsBody
              (map (\<lambda>(d, pred). \<lparr>date = d, predicted_amount = pred,
                                 confidence_interval = pred * (15 / 100)\<rparr>)
                   (zip future_dates predictions)),
            200)))"

text \<open>
  The customer aggregate is a JSON object whose fields, when present, are a number or
  \<^verbatim>\<open>null\<close>. A JSON number is a Python \<^verbatim>\<open>int\<close> or a \<^verbatim>\<open>float\<close>. Python multiplies two
  ints exactly, converts an int to float before it multiplies it with a float, and raises
  \<^verbatim>\<open>TypeError\<close> on \<^verbatim>\<open>None\<close>.
\<close>

datatype json_value = JNull | JInt int | JFloat pyfloat

definition dict_get :: "(string \<rightharpoonup> json_value) \<Rightarrow> string \<Rightarrow> json_value \<Rightarrow> json_value" where
  \<comment> \<open>\<^verbatim>\<open>d.get(k, default)\<close>\<close>
  "dict_get d k dflt = (case d k of None \<Rightarrow> dflt | Some v \<Rightarrow> v)"

fun py_mul :: "json_value \<Rightarrow> json_value \<Rightarrow> error + json_value" where
  "py_mul (JInt a) (JInt b) = Inr (JInt (a * b))"
| "py_mul (JInt a) (JFloat y) =
     (case int_to_float a of Inl e \<Rightarrow> Inl e | Inr x \<Rightarrow> Inr (JFloat (fmul x y)))"
| "py_mul (JFloat x) (JInt b) =
     (case int_to_float b of Inl e \<Rightarrow> Inl e | Inr y \<Rightarrow> Inr (JFloat (fmul x y)))"
| "py_mul (JFloat x) (JFloat y) = Inr (JFloat (fmul x y))"
| "py_mul _ _ = Inl TypeError"

fun py_float :: "json_value \<Rightarrow> error + pyfloat" where
  \<comment> \<open>\<^verbatim>\<open>float(v)\<close>\<close>
  "py_float (JInt n) = int_to_float n"
| "py_float (JFloat x) = Inr x"
| "py_float JNull = Inl TypeError"

definition predict_customer_value :: "(string \<rightharpoonup> json_value) option \<Rightarrow> response" where
  "predict_customer_value body_customer_data =
     (let customer_data = (case body_customer_data of None \<Rightarrow> Map.empty | Some d \<Rightarrow> d);
          avg_order = dict_get customer_data ''average_order_value'' (JInt 0);
          frequency = dict_get customer_data ''order_frequency'' (JInt 0)
      in case py_mul avg_order frequency of
           Inl e \<Rightarrow> (ErrorBody e, 500)
         | Inr af \<Rightarrow>
        (case py_mul af (JInt 24) of
           Inl e \<Rightarrow> (ErrorBody e, 500)
         | Inr predicted_clv \<Rightarrow>
        (case py_float predicted_clv of
           Inl e \<Rightarrow> (ErrorBody e, 500)
         | Inr v \<Rightarrow>
             (CustomerValueBody \<lparr>predicted_lifetime_value = v, confidence = 8 / 10\<rparr>, 200))))"

fun number_value :: "json_value \<Rightarrow> real option" where
  \<comment> \<open>the value of a finite JSON number\<close>
  "number_value (JInt n) = Some (real_of_int n)"
| "number_value (JFloat (Fin x)) = Some x"
| "number_value _ = None"

subsection \<open>The service as a whole\<close>

datatype request =
    GetHealth
  | PostTrain "sales_record list option"
  | PostPredict "string list option"
  | PostCustomerValue "(string \<rightharpoonup> json_value) option"

fun serve ::
  "(string \<Rightarrow> datetime option) \<Rightarrow> (features list \<Rightarrow> real list \<Rightarrow> linear_regression) \<Rightarrow>
   sales_forecast_model \<times> disk \<Rightarrow> request \<Rightarrow> (sales_forecast_model \<times> disk) \<times> response" where
  "serve parse ols (forecast_model, fs) GetHealth = ((forecast_model, fs), health_check)"
| "serve parse ols (forecast_model, fs) (PostTrain b) =
     (case train_model parse ols forecast_model fs b of
        (forecast_model, fs, r) \<Rightarrow> ((forecast_model, fs), r))"
| "serve parse ols (forecast_model, fs) (PostPredict b) =
     (case predict_sales parse forecast_model fs b of
        (forecast_model, r) \<Rightarrow> ((forecast_model, fs), r))"
| "serve parse ols (forecast_model, fs) (PostCustomerValue b) =
     ((forecast_model, fs), predict_customer_value b)"

fun run ::
  "(string \<Rightarrow> datetime option) \<Rightarrow> (features list \<Rightarrow> real list \<Rightarrow> linear_regression) \<Rightarrow>
   sales_forecast_model \<times> disk \<Rightarrow> request list \<Rightarrow> sales_forecast_model \<times> disk" where
  \<comment> \<open>the state of the process after a sequence of requests\<close>
  "run parse ols s [] = s"
| "run parse ols s (r # rs) = run parse ols (fst (serve parse ols s r)) rs"

subsection \<open>Feature rows\<close>

definition feature_row :: "timestamp \<Rightarrow> features" where
  \<comment> \<open>the row of the feature matrix that belongs to one timestamp\<close>
  "feature_row t = (real_of_int (dayofyear t), real (month t), real_of_int (dayofweek t))"

definition date_row :: "datetime \<Rightarrow> features option" where
  \<comment> \<open>the row of the feature matrix that belongs to one element of a datetime column\<close>
  "date_row d = (case d of NaT \<Rightarrow> None | Stamp t \<Rightarrow> Some (feature_row t))"

definition infer ::
  "scaler_object \<Rightarrow> linear_regression option \<Rightarrow> datetime list \<Rightarrow> error + real list" where
  \<comment> \<open>the outcome of scaling and inference (the last lines of \<open>predict\<close>) in terms of
      the converted dates; \<open>predict_trained\<close> and \<open>predict_untrained\<close> below relate it
      to \<open>predict\<close>\<close>
  "infer sc m ds =
     (case sc of
        Unfitted \<Rightarrow> Inl NotFittedError
      | Fitted s \<Rightarrow>
          (if ds = [] then Inl ValueError
           else
             (case m of
                None \<Rightarrow> Inl NotFittedError
              | Some p \<Rightarrow>
                  (if NaT \<in> set ds then Inl ValueError
                   else Inr (map (\<lambda>t. lr_predict_row p (scale_row s (feature_row t)))
                               (stamps ds)))))
      | FittedNaN \<Rightarrow>
          (if ds = [] then Inl ValueError
           else (case m of None \<Rightarrow> Inl NotFittedError | Some p \<Rightarrow> Inl ValueError)))"

subsection \<open>Instances of the library parameters\<close>

text \<open>
  Concrete runs need concrete library routines. \<open>parse_iso\<close> reads the ISO 8601 calendar
  dates \<^verbatim>\<open>YYYY-MM-DD\<close> that a nanosecond timestamp can hold, as \<^verbatim>\<open>to_datetime\<close> does,
  turns the empty string into NaT, as \<^verbatim>\<open>to_datetime\<close> does, and rejects every other string
  (pandas accepts more formats than this instance).
  \<open>ols_equal_rows\<close> is the least-squares fit of a design matrix whose rows are all equal,
  in particular of a single record: the centred matrix is zero, so the minimum-norm
  solution has zero coefficients and the mean of \<open>y\<close> as intercept.
  \<open>ols_two_rows\<close> is the least-squares fit of two records: with \<open>d\<close> the difference of
  the two rows, the minimum-norm solution has the coefficients
  \<open>((y\<^sub>2 - y\<^sub>1) / (d \<bullet> d)) d\<close> and passes through both records.
\<close>

definition digit :: "char \<Rightarrow> nat option" where
  "digit c = (let n = (of_char c :: nat) in if 48 \<le> n \<and> n \<le> 57 then Some (n - 48) else None)"

fun number :: "nat \<Rightarrow> string \<Rightarrow> nat option" where
  "number acc [] = Some acc"
| "number acc (c # cs) =
     (case digit c of None \<Rightarrow> None | Some d \<Rightarrow> number (10 * acc + d) cs)"

definition parse_iso :: "string \<Rightarrow> datetime option" where
  "parse_iso s =
     (if s = [] then Some NaT
      else if length s = 10 \<and> s ! 4 = CHR ''-'' \<and> s ! 7 = CHR ''-'' then
        (case (number 0 (take 4 s), number 0 (take 2 (drop 5 s)), number 0 (drop 8 s)) of
           (Some y, Some m, Some d) \<Rightarrow>
             (if 1678 \<le> y \<and> y \<le> 2261 \<and> 1 \<le> m \<and> m \<le> 12 \<and>
                 1 \<le> d \<and> d \<le> days_in_month (int y) m
              then Some (Stamp (Timestamp (int y) m d)) else None)
         | _ \<Rightarrow> None)
      else None)"

definition ols_equal_rows :: "features list \<Rightarrow> real list \<Rightarrow> linear_regression" where
  "ols_equal_rows X ys = \<lparr>coef = (0, 0, 0), intercept = column_mean ys\<rparr>"


subsection \<open>A trained model for concrete runs\<close>

text \<open>
  A trained model object and the two artifacts that hold the same estimators: the
  regressor predicts the scaled day of the year, the scaler centres on Monday 1 January.
\<close>

definition ex_model :: sales_forecast_model where
  "ex_model = \<lparr>model = Some \<lparr>coef = (1, 0, 0), intercept = 0\<rparr>,
               scaler = Fitted \<lparr>scaler_mean = (1, 1, 0), scaler_scale = (1, 1, 1)\<rparr>,
               is_trained = True\<rparr>"

definition ex_disk :: disk where
  "ex_disk = \<lparr>sales_model_pkl = Pickled (model ex_model), scaler_pkl = Pickled (scaler ex_model)\<rparr>"

definition no_artifacts :: disk where
  "no_artifacts = \<lparr>sales_model_pkl = Missing, scaler_pkl = Missing\<rparr>"

section \<open>Auxiliary facts\<close>

subsection \<open>Frames and feature extraction\<close>

lemma getitem_setitem:
  "getitem (setitem df k c) k' = (if k' = k then Inr c else getitem df k')"
  by (induction df) (auto simp: getitem_def)

lemma map_of_setitem: "map_of (setitem df k c) = (map_of df)(k \<mapsto> c)"
  by (induction df) auto

lemma dt_setitem_other: "k' \<noteq> k \<Longrightarrow> dt (setitem df k c) k' = dt df k'"
  by (simp add: dt_def getitem_setitem)

lemma prepare_features_ok:
  assumes "dt data ''Date'' = Inr ds"
  shows "prepare_features data =
    (setitem (setitem (setitem data ''day_of_year'' (dt_values dayofyear ds))
        ''month'' (dt_values (\<lambda>t. int (month t)) ds))
        ''day_of_week'' (dt_values dayofweek ds),
     Inr [(''day_of_year'', dt_values dayofyear ds),
          (''month'', dt_values (\<lambda>t. int (month t)) ds),
          (''day_of_week'', dt_values dayofweek ds)])"
  using assms
  by (simp add: prepare_features_def dt_setitem_other getitem_setitem Let_def)

lemma stamps_map_Stamp: "stamps (map Stamp ts) = ts"
  by (induction ts) auto


lemma no_NaT_stamps: "NaT \<notin> set ds \<Longrightarrow> ds = map Stamp (stamps ds)"
proof (induction ds)
  case Nil
  then show ?case by simp
next
  case (Cons d ds)
  then show ?case by (cases d) auto
qed

lemma dt_values_stamps: "dt_values f (map Stamp ts) = IntCol (map f ts)"
  by (simp add: dt_values_def stamps_map_Stamp image_iff)

lemma zip3_map:
  "zip (map f xs) (zip (map g xs) (map h xs)) = map (\<lambda>x. (f x, g x, h x)) xs"
  by (induction xs) auto

lemma nan_row_date:
  "nan_row (case d of NaT \<Rightarrow> None | Stamp t \<Rightarrow> Some (real_of_int (dayofyear t)),
            case d of NaT \<Rightarrow> None | Stamp t \<Rightarrow> Some (real (month t)),
            case d of NaT \<Rightarrow> None | Stamp t \<Rightarrow> Some (real_of_int (dayofweek t)))
   = date_row d"
  by (cases d) (simp_all add: date_row_def feature_row_def)

lemma check_array_features:
  "check_array [(''day_of_year'', dt_values dayofyear ds),
          (''month'', dt_values (\<lambda>t. int (month t)) ds),
          (''day_of_week'', dt_values dayofweek ds)] =
   (if ds = [] then Inl ValueError else Inr (map date_row ds))"
proof (cases "NaT \<in> set ds")
  case True
  then have ne: "ds \<noteq> []" by auto
  with True show ?thesis
    by (simp add: dt_values_def as_floats_def zip3_map nan_row_date)
next
  case False
  then obtain ts where ds: "ds = map Stamp ts" using no_NaT_stamps by blast
  show ?thesis
    by (simp add: ds dt_values_stamps as_floats_def zip3_map comp_def date_row_def
        feature_row_def)
qed

lemma parse_all_Inr:
  "parse_all parse ss = Inr ds \<Longrightarrow> map parse ss = map Some ds"
  by (induction ss arbitrary: ds) (auto split: option.splits sum.splits)

lemma parse_all_length: "parse_all parse ss = Inr ds \<Longrightarrow> length ds = length ss"
  by (drule parse_all_Inr, drule arg_cong [where f = length], simp)

lemma present_map_Some: "present (map Some xs) = xs"
  by (induction xs) auto

lemma date_row_Stamp: "map date_row (map Stamp ts) = map Some (map feature_row ts)"
  by (simp add: date_row_def)

lemma None_in_date_rows: "None \<in> set (map date_row ds) \<longleftrightarrow> NaT \<in> set ds"
  by (induction ds) (auto simp: date_row_def split: datetime.splits)

subsection \<open>What \<open>predict\<close> computes\<close>

lemma None_in_map_option: "None \<in> set (map (map_option f) xs) \<longleftrightarrow> None \<in> set xs"
  by (induction xs) auto

lemma scaled_rows_None:
  "None \<in> set (map (map_option f) (map date_row ds)) \<longleftrightarrow> NaT \<in> set ds"
  using None_in_map_option [of f "map date_row ds"] None_in_date_rows [of ds] by simp

lemma scaled_rows_the:
  "NaT \<notin> set ds \<Longrightarrow>
   map (\<lambda>x. g (the x)) (map (map_option f) (map date_row ds)) =
   map (\<lambda>t. g (f (feature_row t))) (stamps ds)"
proof (induction ds)
  case Nil
  then show ?case by simp
next
  case (Cons d ds)
  then show ?case by (cases d) (auto simp: date_row_def)
qed

lemma lr_predict_scaled:
  "lr_predict (Some p) (map (map_option f) (map date_row ds)) =
     (if NaT \<in> set ds then Inl ValueError
      else Inr (map (\<lambda>t. lr_predict_row p (f (feature_row t))) (stamps ds)))"
proof (cases "NaT \<in> set ds")
  case True
  then have "None \<in> set (map (map_option f) (map date_row ds))"
    by (simp only: scaled_rows_None)
  with True show ?thesis by (simp only: lr_predict_def option.case if_True)
next
  case False
  then have "None \<notin> set (map (map_option f) (map date_row ds))"
    by (simp only: scaled_rows_None not_False_eq_True)
  with False scaled_rows_the [OF False, of "lr_predict_row p" f] show ?thesis
    by (simp only: lr_predict_def option.case if_False)
qed

lemma infer_eq:
  "(case transform sc [(''day_of_year'', dt_values dayofyear ds),
          (''month'', dt_values (\<lambda>t. int (month t)) ds),
          (''day_of_week'', dt_values dayofweek ds)] of
      Inl e \<Rightarrow> Inl e
    | Inr X_scaled \<Rightarrow> lr_predict m X_scaled) = infer sc m ds"
proof -
  let ?X = "[(''day_of_year'', dt_values dayofyear ds),
          (''month'', dt_values (\<lambda>t. int (month t)) ds),
          (''day_of_week'', dt_values dayofweek ds)]"
  have c: "check_array ?X = (if ds = [] then Inl ValueError else Inr (map date_row ds))"
    by (rule check_array_features)
  show ?thesis
  proof (cases "ds = []")
    case True
    then show ?thesis
      by (cases sc)
         (simp_all add: transform_def infer_def check_array_features del: check_array.simps)
  next
    case ne: False
    show ?thesis
    proof (cases sc)
      case Unfitted
      then show ?thesis by (simp add: transform_def infer_def)
    next
      case (Fitted s)
      have t: "transform sc ?X = Inr (map (map_option (scale_row s)) (map date_row ds))"
        unfolding Fitted transform_def c using ne by (simp del: map_map)
      show ?thesis
      proof (cases m)
        case None
        then show ?thesis unfolding t using ne Fitted
          by (simp add: lr_predict_def infer_def)
      next
        case (Some p)
        show ?thesis unfolding t Some sum.case lr_predict_scaled using ne Fitted
          by (simp add: infer_def)
      qed
    next
      case FittedNaN
      have t: "transform sc ?X = Inr (map (\<lambda>r. None) (map date_row ds))"
        unfolding FittedNaN transform_def c using ne by (simp del: map_map)
      from ne have n: "None \<in> set (map (\<lambda>r. None) (map date_row ds))" by (cases ds) auto
      show ?thesis unfolding t sum.case using ne FittedNaN n
        by (cases m) (simp_all add: lr_predict_def infer_def del: set_map map_map)
    qed
  qed
qed

lemma predict_trained:
  assumes "is_trained self"
  shows "predict parse self fs dates =
    (self,
     case parse_all parse dates of
       Inl e \<Rightarrow> Inl e
     | Inr ds \<Rightarrow> infer (scaler self) (model self) ds)"
proof (cases "parse_all parse dates")
  case (Inl e)
  with assms show ?thesis by (simp add: predict_def)
next
  case (Inr ds)
  have d: "dt [(''Date'', DateCol ds)] ''Date'' = Inr ds" by (simp add: dt_def getitem_def)
  have "predict parse self fs dates =
     (self, case transform (scaler self) [(''day_of_year'', dt_values dayofyear ds),
          (''month'', dt_values (\<lambda>t. int (month t)) ds),
          (''day_of_week'', dt_values dayofweek ds)] of
      Inl e \<Rightarrow> Inl e
    | Inr X_scaled \<Rightarrow> lr_predict (model self) X_scaled)"
    using assms Inr
    by (simp add: predict_def prepare_features_ok [OF d] split: sum.splits)
  then show ?thesis by (simp add: infer_eq Inr)
qed

lemma predict_untrained:
  assumes "\<not> is_trained self"
  shows "predict parse self fs dates =
    (case load_model self fs of
       (self', Inl e) \<Rightarrow> (self', Inl e)
     | (self', Inr u) \<Rightarrow>
        (self',
         case parse_all parse dates of
           Inl e \<Rightarrow> Inl e
         | Inr ds \<Rightarrow> infer (scaler self') (model self') ds))"
proof -
  obtain self' r where l: "load_model self fs = (self', r)" by (cases "load_model self fs")
  show ?thesis
  proof (cases r)
    case (Inl e)
    with assms l show ?thesis by (simp add: predict_def)
  next
    case (Inr u)
    show ?thesis
    proof (cases "parse_all parse dates")
      case (Inl e)
      with assms l Inr show ?thesis by (simp add: predict_def)
    next
      case ds: (Inr ds)
      have d: "dt [(''Date'', DateCol ds)] ''Date'' = Inr ds" by (simp add: dt_def getitem_def)
      have "predict parse self fs dates =
         (self', case transform (scaler self') [(''day_of_year'', dt_values dayofyear ds),
              (''month'', dt_values (\<lambda>t. int (month t)) ds),
              (''day_of_week'', dt_values dayofweek ds)] of
          Inl e \<Rightarrow> Inl e
        | Inr X_scaled \<Rightarrow> lr_predict (model self') X_scaled)"
        using assms l Inr ds
        by (simp add: predict_def prepare_features_ok [OF d] split: sum.splits)
      then show ?thesis by (simp add: infer_eq l Inr ds)
    qed
  qed
qed

lemma infer_Inr:
  assumes "infer sc m ds = Inr predictions"
  shows "\<exists>ts s p. ds = map Stamp ts \<and> sc = Fitted s \<and> m = Some p
           \<and> predictions = map (\<lambda>t. lr_predict_row p (scale_row s (feature_row t))) ts"
proof -
  from assms obtain s p where sc: "sc = Fitted s" and m: "m = Some p" and n: "NaT \<notin> set ds"
    and pr: "predictions = map (\<lambda>t. lr_predict_row p (scale_row s (feature_row t))) (stamps ds)"
    by (auto simp: infer_def split: scaler_object.splits option.splits if_splits)
  from no_NaT_stamps [OF n] sc m pr show ?thesis by blast
qed

lemma predict_Inr:
  assumes "predict parse self fs dates = (self', Inr predictions)"
  shows "\<exists>ts s p. parse_all parse dates = Inr (map Stamp ts) \<and> scaler self' = Fitted s
           \<and> model self' = Some p
           \<and> predictions = map (\<lambda>t. lr_predict_row p (scale_row s (feature_row t))) ts"
proof -
  have "\<exists>ds. parse_all parse dates = Inr ds \<and> infer (scaler self') (model self') ds = Inr predictions"
  proof (cases "is_trained self")
    case True
    from assms show ?thesis unfolding predict_trained [OF True]
      by (auto split: sum.splits)
  next
    case False
    from assms show ?thesis unfolding predict_untrained [OF False]
      by (auto split: prod.splits sum.splits)
  qed
  then obtain ds where p: "parse_all parse dates = Inr ds"
    and i: "infer (scaler self') (model self') ds = Inr predictions" by blast
  from infer_Inr [OF i] p show ?thesis by blast
qed

lemma zip_maps:
  "length xs = length ys \<Longrightarrow>
   map date (map (\<lambda>(d, pred). \<lparr>date = d, predicted_amount = pred,
       confidence_interval = pred * c\<rparr>) (zip xs ys)) = xs
   \<and> map predicted_amount (map (\<lambda>(d, pred). \<lparr>date = d, predicted_amount = pred,
       confidence_interval = pred * c\<rparr>) (zip xs ys)) = ys"
  by (induction xs ys rule: list_induct2) auto

subsection \<open>What \<open>train\<close> computes\<close>

lemma present_date_rows: "present (map date_row ds) = map feature_row (stamps ds)"
proof (induction ds)
  case Nil
  then show ?case by simp
next
  case (Cons d ds)
  then show ?case by (cases d) (auto simp: date_row_def)
qed

lemma train_steps:
  assumes ne: "sales_data \<noteq> []" and ds: "parse_all parse (map Date sales_data) = Inr ds"
  shows "train parse ols self fs sales_data =
     (let X = [(''day_of_year'', dt_values dayofyear ds),
               (''month'', dt_values (\<lambda>t. int (month t)) ds),
               (''day_of_week'', dt_values dayofweek ds)];
          sc = scaler_fit_nan (map date_row ds)
      in case transform sc X of
           Inl e \<Rightarrow> (self\<lparr>scaler := sc\<rparr>, fs, Inl e)
         | Inr X_scaled \<Rightarrow>
             (case lr_fit ols (model self) X_scaled (FloatCol (map Amount sales_data)) of
                (m, Inl e) \<Rightarrow> (self\<lparr>scaler := sc, model := m\<rparr>, fs, Inl e)
              | (m, Inr u) \<Rightarrow>
                  (self\<lparr>scaler := sc, model := m, is_trained := True\<rparr>,
                   fs\<lparr>sales_model_pkl := Pickled m, scaler_pkl := Pickled sc\<rparr>,
                   Inr ())))"
proof -
  have len: "length ds = length sales_data"
    using parse_all_length [OF ds] by simp
  with ne have dne: "ds \<noteq> []" by auto
  let ?df = "[(''Date'', DateCol ds), (''Amount'', FloatCol (map Amount sales_data))]"
  have dt: "dt ?df ''Date'' = Inr ds" by (simp add: dt_def getitem_def)
  show ?thesis
    using ne ds dne
    by (simp add: train_def DataFrame_def getitem_def prepare_features_ok [OF dt]
        map_of_setitem fit_transform_def check_array_features Let_def
        del: check_array.simps split: sum.splits prod.splits)
qed

lemma train_eq:
  "train parse ols self fs sales_data =
     (if sales_data = [] then (self, fs, Inl (KeyError ''Date''))
      else
        (case parse_all parse (map Date sales_data) of
           Inl e \<Rightarrow> (self, fs, Inl e)
         | Inr ds \<Rightarrow>
            (if NaT \<in> set ds \<or> None \<in> set (map Amount sales_data)
             then (self\<lparr>scaler := scaler_fit_nan (map date_row ds)\<rparr>, fs, Inl ValueError)
             else
               (let p = scaler_fit (map feature_row (stamps ds));
                    m = ols (map (scale_row p) (map feature_row (stamps ds)))
                          (map the (map Amount sales_data))
                in (self\<lparr>scaler := Fitted p, model := Some m, is_trained := True\<rparr>,
                    fs\<lparr>sales_model_pkl := Pickled (Some m), scaler_pkl := Pickled (Fitted p)\<rparr>,
                    Inr ())))))"
proof (cases "sales_data = []")
  case True
  then show ?thesis by (simp add: train_def DataFrame_def getitem_def)
next
  case ne: False
  show ?thesis
  proof (cases "parse_all parse (map Date sales_data)")
    case (Inl e)
    with ne show ?thesis by (simp add: train_def DataFrame_def getitem_def)
  next
    case (Inr ds)
    let ?X = "[(''day_of_year'', dt_values dayofyear ds),
               (''month'', dt_values (\<lambda>t. int (month t)) ds),
               (''day_of_week'', dt_values dayofweek ds)]"
    let ?sc = "scaler_fit_nan (map date_row ds)"
    have len: "length ds = length sales_data"
      using parse_all_length [OF Inr] by simp
    with ne have dne: "ds \<noteq> []" by auto
    have c: "check_array ?X = Inr (map date_row ds)"
      using dne by (simp add: check_array_features del: check_array.simps)
    show ?thesis
    proof (cases "NaT \<in> set ds")
      case True
      have "\<exists>X_scaled. transform ?sc ?X = Inr X_scaled \<and> None \<in> set X_scaled"
      proof (cases ?sc)
        case Unfitted
        then show ?thesis by (simp add: scaler_fit_nan_def split: if_splits)
      next
        case (Fitted p)
        have "transform ?sc ?X = Inr (map (map_option (scale_row p)) (map date_row ds))"
          unfolding Fitted transform_def c by simp
        moreover have "None \<in> set (map (map_option (scale_row p)) (map date_row ds))"
          using True by (simp only: scaled_rows_None)
        ultimately show ?thesis by blast
      next
        case FittedNaN
        have "transform ?sc ?X = Inr (map (\<lambda>r. None) (map date_row ds))"
          unfolding FittedNaN transform_def c by simp
        moreover have "None \<in> set (map (\<lambda>r. None) (map date_row ds))"
          using dne by (cases ds) auto
        ultimately show ?thesis by blast
      qed
      then obtain X_scaled where t: "transform ?sc ?X = Inr X_scaled"
        and n: "None \<in> set X_scaled" by blast
      show ?thesis
        unfolding train_steps [OF ne Inr] Let_def t
        using ne True n by (simp add: Inr lr_fit_def)
    next
      case False
      then have dsS: "ds = map Stamp (stamps ds)" by (rule no_NaT_stamps)
      let ?rows = "map feature_row (stamps ds)"
      let ?p = "scaler_fit ?rows"
      from dsS dne have sne: "stamps ds \<noteq> []" by auto
      have sc: "?sc = Fitted ?p"
        using sne by (simp add: scaler_fit_nan_def present_date_rows)
      have rows: "map date_row ds = map Some ?rows"
        using date_row_Stamp [of "stamps ds"] dsS by simp
      have t: "transform (Fitted ?p) ?X = Inr (map Some (map (scale_row ?p) ?rows))"
        unfolding transform_def c rows by simp
      have l: "length (stamps ds) = length sales_data"
        using len dsS by (metis length_map)
      show ?thesis
        unfolding train_steps [OF ne Inr] Let_def sc t
        using ne False l sc [symmetric]
        by (simp add: Inr lr_fit_def as_floats_def comp_def image_iff)
    qed
  qed
qed

lemma train_Inl:
  assumes "train parse ols self fs sales_data = (self', fs', Inl e)"
  shows "fs' = fs \<and> model self' = model self \<and> is_trained self' = is_trained self
         \<and> (sales_data = [] \<or> (\<exists>r \<in> set sales_data. parse (Date r) = None) \<longrightarrow> self' = self)"
proof (cases "parse_all parse (map Date sales_data)")
  case (Inl pe)
  with assms show ?thesis
    by (auto simp: train_eq split: if_splits)
next
  case (Inr ds)
  have "\<forall>r \<in> set sales_data. parse (Date r) \<noteq> None"
  proof
    fix r assume "r \<in> set sales_data"
    then have "parse (Date r) \<in> set (map parse (map Date sales_data))" by auto
    then show "parse (Date r) \<noteq> None" unfolding parse_all_Inr [OF Inr] by auto
  qed
  with assms Inr show ?thesis
    by (auto simp: train_eq Let_def split: if_splits)
qed


subsection \<open>The trained flag is never cleared\<close>

lemma load_model_trained: "is_trained self \<Longrightarrow> is_trained (fst (load_model self fs))"
  by (simp add: load_model_def Let_def split: sum.splits)

lemma train_trained: "is_trained self \<Longrightarrow> is_trained (fst (train parse ols self fs sales_data))"
  by (simp add: train_eq Let_def split: sum.splits)

lemma predict_trained_fst: "is_trained self \<Longrightarrow> fst (predict parse self fs dates) = self"
  by (simp add: predict_trained)

lemma serve_trained:
  "is_trained (fst s) \<Longrightarrow> is_trained (fst (fst (serve parse ols s request)))"
  by (cases s; cases request)
     (simp_all add: train_model_def predict_sales_def predict_trained train_eq Let_def
        split: sum.splits prod.splits)

lemma run_trained:
  "is_trained (fst s) \<Longrightarrow> is_trained (fst (run parse ols s requests))"
  by (induction requests arbitrary: s) (simp_all add: serve_trained)

subsection \<open>Concrete runs\<close>

lemma ex_parse:
  "parse_iso ''2024-01-01'' = Some (Stamp (Timestamp 2024 1 1))"
  "parse_iso ''2024-01-03'' = Some (Stamp (Timestamp 2024 1 3))"
  "parse_iso ''2024-06-15'' = Some (Stamp (Timestamp 2024 6 15))"
  "parse_iso ''2024-12-31'' = Some (Stamp (Timestamp 2024 12 31))"
  "parse_iso ''2024-03-01'' = Some (Stamp (Timestamp 2024 3 1))"
  "parse_iso ''not-a-date'' = None"
  "parse_iso [] = Some NaT"
  by code_simp+

lemma ex_features:
  "feature_row (Timestamp 2024 1 1) = (1, 1, 0)"
  "feature_row (Timestamp 2024 1 3) = (3, 1, 2)"
  "feature_row (Timestamp 2024 3 1) = (61, 3, 4)"
  "feature_row (Timestamp 2024 6 15) = (167, 6, 5)"
  by code_simp+

lemma ex_predict:
  "predict parse_iso ex_model ex_disk [''2024-01-01'', ''2024-06-15'', ''2024-12-31''] =
     (ex_model, Inr [0, 166, 365])"
  "predict parse_iso ex_model ex_disk [''2024-01-01''] = (ex_model, Inr [0])"
  "predict parse_iso ex_model ex_disk [''2024-06-15''] = (ex_model, Inr [166])"
  by code_simp+

lemma ex_train_null_amount:
  "train parse_iso ols_equal_rows ex_model ex_disk [\<lparr>Date = ''2024-03-01'', Amount = None\<rparr>] =
    (ex_model\<lparr>scaler := Fitted \<lparr>scaler_mean = (61, 3, 4), scaler_scale = (1, 1, 1)\<rparr>\<rparr>,
     ex_disk, Inl ValueError)"
  by (simp add: train_eq ex_parse ex_features scaler_fit_nan_def date_row_def scaler_fit_def
      column_mean_def column_scale_def del: One_nat_def)

lemma ex_train_empty_date:
  "train parse_iso ols_equal_rows ex_model ex_disk [\<lparr>Date = [], Amount = Some 100\<rparr>] =
    (ex_model\<lparr>scaler := FittedNaN\<rparr>, ex_disk, Inl ValueError)"
  by (simp add: train_eq ex_parse scaler_fit_nan_def date_row_def)


section \<open>The claims of the specification\<close>

subsection \<open>C1: the confidence band\<close>

text \<open>
  Claim C1. For every prediction result returned by the \<^verbatim>\<open>/predict\<close> endpoint, the reported
  \<open>confidence_interval\<close> equals 0.15 times the \<open>predicted_amount\<close> of that same result.
  (Amounts are reals here; on floats the two sides are the same product, since
  multiplication commutes.)
\<close>

theorem predict_sales_confidence_interval:
  assumes "predict_sales parse forecast_model fs body_dates =
             (forecast_model', (PredictionsBody results, status))"
  shows "\<forall>r \<in> set results. confidence_interval r = (15 / 100) * predicted_amount r"
  using assms
  by (auto simp: predict_sales_def Let_def split: prod.splits sum.splits)

text \<open>A run of the endpoint on a trained model: 15 June 2024 is day 167 of the year.\<close>

theorem predict_sales_confidence_interval_witness:
  "predict_sales parse_iso ex_model ex_disk (Some [''2024-06-15'']) =
     (ex_model,
      (PredictionsBody
         [\<lparr>date = ''2024-06-15'', predicted_amount = 166, confidence_interval = 249 / 10\<rparr>],
       200))
   \<and> confidence_interval
        \<lparr>date = ''2024-06-15'', predicted_amount = 166, confidence_interval = 249 / 10\<rparr> =
      (15 / 100) *
      predicted_amount
        \<lparr>date = ''2024-06-15'', predicted_amount = 166, confidence_interval = 249 / 10\<rparr>"
proof -
  have run: "predict_sales parse_iso ex_model ex_disk (Some [''2024-06-15'']) =
     (ex_model,
      (PredictionsBody
         [\<lparr>date = ''2024-06-15'', predicted_amount = 166, confidence_interval = 249 / 10\<rparr>],
       200))"
    by (simp add: predict_sales_def ex_predict)
  from predict_sales_confidence_interval [OF run] run show ?thesis by simp
qed

subsection \<open>C2: the customer lifetime value\<close>

text \<open>
  Claim C2 says that every customer-value request is answered with
  \<open>average_order_value * order_frequency * 24\<close> and the confidence 0.8. The handler
  multiplies what the request holds and converts the product with \<^verbatim>\<open>float\<close>: a field that
  is \<^verbatim>\<open>null\<close> raises \<^verbatim>\<open>TypeError\<close>, and an integer beyond the range of a float raises
  \<^verbatim>\<open>OverflowError\<close>; both requests are answered with an error.

  Claim C2, as the program has it. For every customer-value request whose two fields,
  where present, are finite numbers within the range of a float, and for which
  \<open>average_order_value * order_frequency * 24\<close> is within that range, the response has
  status 200, \<open>predicted_lifetime_value\<close> equals
  \<open>average_order_value * order_frequency * 24\<close> with a missing field counting as 0, and
  \<open>confidence\<close> is the constant 0.8; in particular the inputs 50 and 3 yield 3600.
\<close>

theorem predict_customer_value_formula:
  assumes "(case customer_data ''average_order_value'' of
              None \<Rightarrow> Some 0 | Some v \<Rightarrow> number_value v) = Some a"
      and "(case customer_data ''order_frequency'' of
              None \<Rightarrow> Some 0 | Some v \<Rightarrow> number_value v) = Some f"
      and "in_float_range a" and "in_float_range f" and "in_float_range (a * f * 24)"
  shows "predict_customer_value (Some customer_data) =
           (CustomerValueBody
              \<lparr>predicted_lifetime_value = Fin (a * f * 24), confidence = 8 / 10\<rparr>, 200)"
proof -
  have r24: "in_float_range 24"
    by (simp add: in_float_range_def float_overflow_def)
  have "\<bar>a * f\<bar> \<le> \<bar>a * f * 24\<bar>" by (simp add: abs_mult)
  with assms(5) have raf: "in_float_range (a * f)"
    by (simp add: in_float_range_def)
  obtain x where x: "dict_get customer_data ''average_order_value'' (JInt 0) = x"
    and xa: "number_value x = Some a"
    using assms(1) by (auto simp: dict_get_def split: option.splits)
  obtain y where y: "dict_get customer_data ''order_frequency'' (JInt 0) = y"
    and yf: "number_value y = Some f"
    using assms(2) by (auto simp: dict_get_def split: option.splits)
  have "\<exists>v. py_mul x y = Inr v \<and> number_value v = Some (a * f)"
    using xa yf assms(3,4) raf
    by (cases x rule: number_value.cases; cases y rule: number_value.cases)
       (auto simp: int_to_float_def to_float_def)
  then obtain af where af: "py_mul x y = Inr af" and afv: "number_value af = Some (a * f)"
    by blast
  have "\<exists>v. py_mul af (JInt 24) = Inr v \<and> number_value v = Some (a * f * 24)"
    using afv raf r24 assms(5)
    by (cases af rule: number_value.cases) (auto simp: int_to_float_def to_float_def)
  then obtain clv where clv: "py_mul af (JInt 24) = Inr clv"
    and clvv: "number_value clv = Some (a * f * 24)" by blast
  have "py_float clv = Inr (Fin (a * f * 24))"
    using clvv assms(5)
    by (cases clv rule: number_value.cases) (auto simp: int_to_float_def)
  with x y af clv show ?thesis
    by (simp add: predict_customer_value_def)
qed

text \<open>
  A request with a \<^verbatim>\<open>null\<close> field, and a request whose order value is the integer
  \<open>10\<^sup>4\<^sup>0\<^sup>0\<close>: both are answered with an error and status 500.
\<close>

theorem predict_customer_value_error_counterexample:
  "predict_customer_value
     (Some [''average_order_value'' \<mapsto> JNull, ''order_frequency'' \<mapsto> JInt 3]) =
     (ErrorBody TypeError, 500)
   \<and> predict_customer_value
     (Some [''average_order_value'' \<mapsto> JInt (10 ^ 400), ''order_frequency'' \<mapsto> JInt 1]) =
     (ErrorBody OverflowError, 500)"
  by (simp add: predict_customer_value_def dict_get_def int_to_float_def in_float_range_def
      float_overflow_def)

theorem predict_customer_value_formula_witness:
  "predict_customer_value
     (Some [''average_order_value'' \<mapsto> JInt 50, ''order_frequency'' \<mapsto> JInt 3]) =
   (CustomerValueBody \<lparr>predicted_lifetime_value = Fin 3600, confidence = 8 / 10\<rparr>, 200)
   \<and> predict_customer_value (Some [''average_order_value'' \<mapsto> JFloat (Fin (1 / 2))]) =
   (CustomerValueBody \<lparr>predicted_lifetime_value = Fin 0, confidence = 8 / 10\<rparr>, 200)"
  using predict_customer_value_formula
          [of "[''average_order_value'' \<mapsto> JInt 50, ''order_frequency'' \<mapsto> JInt 3]" 50 3]
        predict_customer_value_formula
          [of "[''average_order_value'' \<mapsto> JFloat (Fin (1 / 2))]" "1 / 2" 0]
  by (simp add: in_float_range_def float_overflow_def)

subsection \<open>C3: one prediction per date, in order\<close>

text \<open>
  Claim C3. Whenever \<open>predict\<close> succeeds on a list of dates, it returns exactly one
  predicted amount per input date, and the i-th amount is the regressor's value at the
  scaled features of the i-th date; the \<^verbatim>\<open>/predict\<close> response pairs the i-th date with
  the i-th amount.
\<close>

theorem predict_one_amount_per_date_in_order:
  assumes "predict parse self fs dates = (self', Inr predictions)"
  shows "length predictions = length dates
     \<and> (\<forall>i < length dates. \<exists>t s p.
           parse (dates ! i) = Some (Stamp t) \<and> scaler self' = Fitted s \<and>
           model self' = Some p \<and>
           predictions ! i = lr_predict_row p (scale_row s (feature_row t)))
     \<and> (\<exists>results.
           predict_sales parse self fs (Some dates) = (self', (PredictionsBody results, 200)) \<and>
           map date results = dates \<and> map predicted_amount results = predictions)"
proof -
  from predict_Inr [OF assms] obtain ts s p where
    ts: "parse_all parse dates = Inr (map Stamp ts)" and s: "scaler self' = Fitted s"
    and p: "model self' = Some p"
    and preds: "predictions = map (\<lambda>t. lr_predict_row p (scale_row s (feature_row t))) ts"
    by blast
  have len: "length ts = length dates" using parse_all_length [OF ts] by simp
  have nth: "parse (dates ! i) = Some (Stamp (ts ! i))" if "i < length dates" for i
  proof -
    have "map parse dates ! i = map Some (map Stamp ts) ! i"
      using parse_all_Inr [OF ts] by simp
    with that len show ?thesis by simp
  qed
  have 1: "length predictions = length dates" using preds len by simp
  have 2: "\<forall>i < length dates. \<exists>t s p.
           parse (dates ! i) = Some (Stamp t) \<and> scaler self' = Fitted s \<and>
           model self' = Some p \<and>
           predictions ! i = lr_predict_row p (scale_row s (feature_row t))"
    using nth s p preds len by simp
  have 3: "\<exists>results.
           predict_sales parse self fs (Some dates) = (self', (PredictionsBody results, 200)) \<and>
           map date results = dates \<and> map predicted_amount results = predictions"
    using assms zip_maps [of dates predictions "15 / 100"] 1
    by (simp add: predict_sales_def)
  from 1 2 3 show ?thesis by blast
qed

text \<open>The three dates of the specification, on the trained example model.\<close>

theorem predict_one_amount_per_date_in_order_witness:
  "predict parse_iso ex_model ex_disk [''2024-01-01'', ''2024-06-15'', ''2024-12-31''] =
     (ex_model, Inr [0, 166, 365])
   \<and> length [0, 166, 365 :: real] = length [''2024-01-01'', ''2024-06-15'', ''2024-12-31'']
   \<and> (\<exists>t s p. parse_iso ''2024-06-15'' = Some (Stamp t) \<and> scaler ex_model = Fitted s \<and>
         model ex_model = Some p \<and> 166 = lr_predict_row p (scale_row s (feature_row t)))"
proof -
  note run = ex_predict(1)
  from predict_one_amount_per_date_in_order [OF run]
  have len: "length [0, 166, 365 :: real] = length [''2024-01-01'', ''2024-06-15'', ''2024-12-31'']"
    and all: "\<forall>i < length [''2024-01-01'', ''2024-06-15'', ''2024-12-31'']. \<exists>t s p.
           parse_iso ([''2024-01-01'', ''2024-06-15'', ''2024-12-31''] ! i) = Some (Stamp t) \<and>
           scaler ex_model = Fitted s \<and> model ex_model = Some p \<and>
           [0, 166, 365] ! i = lr_predict_row p (scale_row s (feature_row t))"
    by blast+
  from all have "\<exists>t s p.
           parse_iso ([''2024-01-01'', ''2024-06-15'', ''2024-12-31''] ! 1) = Some (Stamp t) \<and>
           scaler ex_model = Fitted s \<and> model ex_model = Some p \<and>
           [0, 166, 365] ! 1 = lr_predict_row p (scale_row s (feature_row t))"
    by (rule allE [where x = 1]) simp
  then have "\<exists>t s p. parse_iso ''2024-06-15'' = Some (Stamp t) \<and> scaler ex_model = Fitted s \<and>
         model ex_model = Some p \<and> 166 = lr_predict_row p (scale_row s (feature_row t))"
    by simp
  with run len show ?thesis by blast
qed

subsection \<open>C4: prediction without a model\<close>

text \<open>
  Claim C4 says that \<open>predict\<close> on an untrained model, with no artifact on disk and no
  training ever performed, fails with a ModelNotReadyError. The program converts the
  dates before it touches the scaler, so a date string that pandas refuses is reported
  first.

  Claim C4, as the program has it. If \<open>predict\<close> is called while the model is untrained
  and neither estimator has been fitted, and no regressor artifact exists on disk, then
  the attempted load changes nothing and \<open>predict\<close> fails, never returning a prediction:
  with the parse error of the first date string that \<^verbatim>\<open>to_datetime\<close> refuses if there is
  one, and with a ModelNotReadyError otherwise.
\<close>

theorem predict_untrained_without_artifacts_fails:
  assumes "\<not> is_trained self" and "model self = None" and "scaler self = Unfitted"
      and "sales_model_pkl fs = Missing"
  shows "predict parse self fs dates =
           (self, Inl (case parse_all parse dates of
                         Inl e \<Rightarrow> e
                       | Inr ts \<Rightarrow> ModelNotReadyError))"
  using assms
  by (simp add: predict_untrained load_model_def path_exists_def infer_def split: sum.splits)

text \<open>A fresh process, no artifacts, one date string that is refused: the failure is a parse
  error.\<close>

theorem predict_untrained_malformed_date_counterexample:
  "snd (predict parse_iso init no_artifacts [''not-a-date'']) = Inl (ParseError ''not-a-date'')
   \<and> snd (predict parse_iso init no_artifacts [''not-a-date'']) \<noteq> Inl ModelNotReadyError"
  by (simp add: predict_untrained init_def no_artifacts_def load_model_def path_exists_def
      ex_parse)

theorem predict_untrained_without_artifacts_fails_witness:
  "predict parse_iso init no_artifacts [''2024-01-01''] = (init, Inl ModelNotReadyError)"
  using predict_untrained_without_artifacts_fails
          [of init no_artifacts parse_iso "[''2024-01-01'']"]
  by (simp add: init_def no_artifacts_def ex_parse)

subsection \<open>C5: training, then predicting a training date\<close>



subsection \<open>C6: a failed training request\<close>

text \<open>
  Claim C6 says that a failed \<^verbatim>\<open>/train\<close>, in particular one that fails because of a
  malformed date string, leaves the previously trained in-memory model untouched and
  usable. \<open>train\<close> refits the scaler before it fits the regressor, so a request that the
  regressor rejects has already replaced the scaler: a request with an amount that is
  \<^verbatim>\<open>null\<close>, and also a request with a date string that pandas does not refuse but turns
  into NaT, such as the empty string.

  Claim C6, as the program has it. If a \<^verbatim>\<open>/train\<close> call fails, it yields an error
  response with status 500 rather than a crash. If it fails because \<^verbatim>\<open>to_datetime\<close>
  refuses a date string of the request body, or because the request holds no record, the
  in-memory model and the artifact files are left untouched, so that a previously trained
  model remains usable: subsequent predictions are what they were before.
\<close>

theorem train_failure_leaves_model:
  assumes "train parse ols forecast_model fs sales_data = (forecast_model', fs', Inl e)"
  shows "train_model parse ols forecast_model fs (Some sales_data) =
           (forecast_model', fs', (ErrorBody e, 500))
       \<and> (sales_data = [] \<or> (\<exists>r \<in> set sales_data. parse (Date r) = None) \<longrightarrow>
            forecast_model' = forecast_model \<and> fs' = fs \<and>
            predict parse forecast_model' fs' dates = predict parse forecast_model fs dates)"
  using train_Inl [OF assms] assms by (simp add: train_model_def)

text \<open>
  A trained model, then a training request whose only record has a \<^verbatim>\<open>null\<close> amount: the
  response is an error, the scaler in memory is the one fitted to the rejected request,
  and the prediction for 1 January 2024 changes from 0 to -60. The same model, then a
  training request whose only record has the empty string as its date: the response is
  an error, the scaler in memory has NaN statistics, and the prediction for 1 January
  2024 fails.
\<close>

theorem train_failure_refits_scaler_counterexample:
  "snd (predict parse_iso ex_model ex_disk [''2024-01-01'']) = Inr [0]
   \<and> snd (snd (train_model parse_iso ols_equal_rows ex_model ex_disk
               (Some [\<lparr>Date = ''2024-03-01'', Amount = None\<rparr>]))) = (ErrorBody ValueError, 500)
   \<and> snd (predict parse_iso
            (fst (train_model parse_iso ols_equal_rows ex_model ex_disk
               (Some [\<lparr>Date = ''2024-03-01'', Amount = None\<rparr>])))
            ex_disk [''2024-01-01'']) = Inr [- 60]
   \<and> snd (snd (train_model parse_iso ols_equal_rows ex_model ex_disk
               (Some [\<lparr>Date = '''', Amount = Some 100\<rparr>]))) = (ErrorBody ValueError, 500)
   \<and> snd (predict parse_iso
            (fst (train_model parse_iso ols_equal_rows ex_model ex_disk
               (Some [\<lparr>Date = '''', Amount = Some 100\<rparr>])))
            ex_disk [''2024-01-01'']) = Inl ValueError"
proof -
  have 1: "predict parse_iso
             (ex_model\<lparr>scaler := Fitted \<lparr>scaler_mean = (61, 3, 4), scaler_scale = (1, 1, 1)\<rparr>\<rparr>)
             ex_disk [''2024-01-01''] =
           (ex_model\<lparr>scaler := Fitted \<lparr>scaler_mean = (61, 3, 4), scaler_scale = (1, 1, 1)\<rparr>\<rparr>,
            Inr [- 60])"
    by code_simp
  have 2: "predict parse_iso (ex_model\<lparr>scaler := FittedNaN\<rparr>) ex_disk [''2024-01-01''] =
           (ex_model\<lparr>scaler := FittedNaN\<rparr>, Inl ValueError)"
    by code_simp
  show ?thesis
    by (simp add: train_model_def ex_train_null_amount ex_train_empty_date ex_predict 1 2)
qed

theorem train_failure_leaves_model_witness:
  "train_model parse_iso ols_equal_rows ex_model ex_disk
      (Some [\<lparr>Date = ''not-a-date'', Amount = Some 100\<rparr>]) =
     (ex_model, ex_disk, (ErrorBody (ParseError ''not-a-date''), 500))
   \<and> predict parse_iso ex_model ex_disk [''2024-06-15''] = (ex_model, Inr [166])"
proof -
  have t: "train parse_iso ols_equal_rows ex_model ex_disk
      [\<lparr>Date = ''not-a-date'', Amount = Some 100\<rparr>] =
        (ex_model, ex_disk, Inl (ParseError ''not-a-date''))"
    by (simp add: train_eq ex_parse)
  show ?thesis
    using train_failure_leaves_model [OF t, of "[''2024-06-15'']"] ex_predict(3)
    by (simp add: ex_parse)
qed

subsection \<open>C7: the feature extractor\<close>

text \<open>
  Claim C7 says that the feature extractor is pure and does not modify its input.
  \<open>prepare_features\<close> assigns its three result columns into the frame it is given.

  Claim C7, as the program has it. Given a frame whose \<^verbatim>\<open>Date\<close> column holds timestamps,
  the feature extractor returns, for each date and in order, the day of the year, the
  month and the day of the week, as a new frame of three columns; its one side effect is
  on its input frame, where it sets the columns \<^verbatim>\<open>day_of_year\<close>, \<^verbatim>\<open>month\<close> and
  \<^verbatim>\<open>day_of_week\<close> to the same values and leaves every other column, the dates included,
  as it was.
\<close>

theorem prepare_features_frame_effect:
  assumes "dt data ''Date'' = Inr (map Stamp ds)"
  shows "snd (prepare_features data) =
           Inr [(''day_of_year'', IntCol (map dayofyear ds)),
                (''month'', IntCol (map (\<lambda>t. int (month t)) ds)),
                (''day_of_week'', IntCol (map dayofweek ds))]
       \<and> map_of (fst (prepare_features data)) =
           (map_of data)(''day_of_year'' \<mapsto> IntCol (map dayofyear ds),
                         ''month'' \<mapsto> IntCol (map (\<lambda>t. int (month t)) ds),
                         ''day_of_week'' \<mapsto> IntCol (map dayofweek ds))"
  by (simp add: prepare_features_ok [OF assms] map_of_setitem dt_values_stamps)

text \<open>A frame of one date comes back with four columns.\<close>

theorem prepare_features_modifies_input_counterexample:
  "fst (prepare_features [(''Date'', DateCol [Stamp (Timestamp 2024 1 1)])]) =
     [(''Date'', DateCol [Stamp (Timestamp 2024 1 1)]), (''day_of_year'', IntCol [1]),
      (''month'', IntCol [1]), (''day_of_week'', IntCol [0])]
   \<and> fst (prepare_features [(''Date'', DateCol [Stamp (Timestamp 2024 1 1)])]) \<noteq>
     [(''Date'', DateCol [Stamp (Timestamp 2024 1 1)])]"
  by code_simp

theorem prepare_features_frame_effect_witness:
  "snd (prepare_features [(''Date'', DateCol [Stamp (Timestamp 2024 6 15)])]) =
     Inr [(''day_of_year'', IntCol [167]), (''month'', IntCol [6]), (''day_of_week'', IntCol [5])]
   \<and> map_of (fst (prepare_features [(''Date'', DateCol [Stamp (Timestamp 2024 6 15)])])) =
       [''Date'' \<mapsto> DateCol [Stamp (Timestamp 2024 6 15)], ''day_of_year'' \<mapsto> IntCol [167],
        ''month'' \<mapsto> IntCol [6], ''day_of_week'' \<mapsto> IntCol [5]]"
proof -
  have d: "dt [(''Date'', DateCol [Stamp (Timestamp 2024 6 15)])] ''Date'' =
             Inr (map Stamp [Timestamp 2024 6 15])"
    by (simp add: dt_def getitem_def)
  have f: "dayofyear (Timestamp 2024 6 15) = 167" "dayofweek (Timestamp 2024 6 15) = 5"
    by code_simp+
  show ?thesis using prepare_features_frame_effect [OF d] by (simp add: f)
qed

subsection \<open>C8: persistence round trip\<close>

text \<open>
  Claim C8. After a successful \<open>train\<close>, which persists the two estimators, a fresh
  process (the untrained model object of \<open>init\<close>) that predicts on the same dates loads
  the artifacts and returns what the training process returns for those dates; it ends
  with the same model object.
\<close>

theorem persistence_round_trip:
  assumes "train parse ols self fs sales_data = (self', fs', Inr ())"
  shows "predict parse init fs' dates = (self', snd (predict parse self' fs' dates))"
proof -
  from assms obtain sc m where
    self': "self' = self\<lparr>scaler := sc, model := Some m, is_trained := True\<rparr>" and
    fs': "fs' = fs\<lparr>sales_model_pkl := Pickled (Some m), scaler_pkl := Pickled sc\<rparr>"
    by (auto simp: train_eq Let_def split: if_splits sum.splits)
  have l: "load_model init fs' = (self', Inr ())"
    by (simp add: load_model_def path_exists_def joblib_load_def fs' self' init_def)
  have t: "is_trained self'" by (simp add: self')
  have u: "\<not> is_trained init" by (simp add: init_def)
  show ?thesis
    by (simp add: predict_untrained [OF u] l predict_trained [OF t])
qed

text \<open>Training on one record of 100, then predicting 31 December 2024 after a restart.\<close>

theorem persistence_round_trip_witness:
  "predict parse_iso init
     \<lparr>sales_model_pkl = Pickled (Some \<lparr>coef = (0, 0, 0), intercept = 100\<rparr>),
      scaler_pkl = Pickled (Fitted \<lparr>scaler_mean = (167, 6, 5), scaler_scale = (1, 1, 1)\<rparr>)\<rparr>
     [''2024-12-31''] =
   (\<lparr>model = Some \<lparr>coef = (0, 0, 0), intercept = 100\<rparr>,
     scaler = Fitted \<lparr>scaler_mean = (167, 6, 5), scaler_scale = (1, 1, 1)\<rparr>,
     is_trained = True\<rparr>, Inr [100])"
proof -
  let ?m = "\<lparr>model = Some \<lparr>coef = (0, 0, 0), intercept = 100\<rparr>,
     scaler = Fitted \<lparr>scaler_mean = (167, 6, 5), scaler_scale = (1, 1, 1)\<rparr>,
     is_trained = True\<rparr>"
  let ?d = "\<lparr>sales_model_pkl = Pickled (Some \<lparr>coef = (0, 0, 0), intercept = 100\<rparr>),
      scaler_pkl = Pickled (Fitted \<lparr>scaler_mean = (167, 6, 5), scaler_scale = (1, 1, 1)\<rparr>)\<rparr>"
  have t: "train parse_iso ols_equal_rows init no_artifacts
             [\<lparr>Date = ''2024-06-15'', Amount = Some 100\<rparr>] = (?m, ?d, Inr ())"
    by (simp add: train_eq ex_parse ex_features scaler_fit_def column_mean_def
        column_scale_def ols_equal_rows_def init_def no_artifacts_def Let_def
        del: One_nat_def)
  have p: "predict parse_iso ?m ?d [''2024-12-31''] = (?m, Inr [100])"
    by code_simp
  show ?thesis
    using persistence_round_trip [OF t, of "[''2024-12-31'']"] p by simp
qed

subsection \<open>C9: the trained state is absorbing\<close>

text \<open>
  Claim C9. Once \<open>is_trained\<close> is true, no operation resets it: not \<open>load_model\<close>,
  \<open>train\<close> or \<open>predict\<close>, whether they succeed or fail, and no sequence of requests to
  the service.
\<close>

theorem trained_is_absorbing:
  assumes "is_trained self"
  shows "is_trained (fst (load_model self fs))
       \<and> is_trained (fst (train parse ols self fs sales_data))
       \<and> is_trained (fst (predict parse self fs dates))
       \<and> is_trained (fst (run parse ols (self, fs) requests))"
  using assms
  by (simp add: load_model_trained train_trained predict_trained_fst run_trained)

theorem trained_is_absorbing_witness:
  "is_trained ex_model
   \<and> is_trained (fst (train parse_iso ols_equal_rows ex_model ex_disk
                        [\<lparr>Date = ''not-a-date'', Amount = Some 100\<rparr>]))
   \<and> is_trained (fst (run parse_iso ols_equal_rows (ex_model, ex_disk)
        [PostTrain (Some [\<lparr>Date = ''2024-03-01'', Amount = None\<rparr>]),
         PostPredict (Some [''not-a-date'']), PostTrain None, GetHealth,
         PostCustomerValue None]))"
proof -
  have t: "is_trained ex_model" by (simp add: ex_model_def)
  from trained_is_absorbing [OF t] t show ?thesis by blast
qed

subsection \<open>C10: what \<open>load_model\<close> checks\<close>

text \<open>
  Claim C10. \<open>load_model\<close> guards only on the existence of the regressor artifact
  \<^verbatim>\<open>sales_model.pkl\<close>: without it the call returns silently and changes nothing, whatever
  the state of \<^verbatim>\<open>scaler.pkl\<close>; with it and without \<^verbatim>\<open>scaler.pkl\<close> the call raises an error
  (after it has replaced the regressor in memory).
\<close>

theorem load_model_guards_regressor_only:
  "load_model self \<lparr>sales_model_pkl = Missing, scaler_pkl = scaler_file\<rparr> = (self, Inr ())
   \<and> load_model self \<lparr>sales_model_pkl = Pickled m, scaler_pkl = Missing\<rparr> =
       (self\<lparr>model := m\<rparr>, Inl (FileNotFoundError ''scaler.pkl''))"
  by (simp add: load_model_def path_exists_def joblib_load_def)

theorem load_model_guards_regressor_only_witness:
  "load_model init no_artifacts = (init, Inr ())
   \<and> load_model init \<lparr>sales_model_pkl = Pickled (model ex_model), scaler_pkl = Missing\<rparr> =
       (init\<lparr>model := model ex_model\<rparr>, Inl (FileNotFoundError ''scaler.pkl''))"
  using load_model_guards_regressor_only [of init Missing "model ex_model"]
  by (simp add: no_artifacts_def)

end
